theory Spec2Isabelle
  imports Main "HOL-Library.Char_ord" "HOL-Library.List_Lexorder"
begin

section \<open>Strings\<close>

text \<open>
  Python strings are modelled as \<open>string\<close> (the UTF-8 bytes). \<open>str.lower()\<close> is modelled
  on the ASCII letters; bytes above 127 are left alone. The only use of \<open>lower()\<close> in
  \<^verbatim>\<open>mcp_handler.py\<close> is the comparison with \<open>vote\<close> and \<open>new_answer\<close>, and no letter of
  these two words is the lower case of a non-ASCII code point, so the comparison is the
  same.
\<close>

definition lower_char :: "char \<Rightarrow> char" where
  "lower_char c =
     (let n = (of_char c :: nat) in if 65 \<le> n \<and> n \<le> 90 then char_of (n + 32) else c)"

definition lower :: "string \<Rightarrow> string" where
  "lower s = map lower_char s"

text \<open>The non-ASCII signs of the status texts, as their UTF-8 bytes.\<close>

definition warning_sign :: string where
  "warning_sign = [CHR 0xE2, CHR 0x9A, CHR 0xA0, CHR 0xEF, CHR 0xB8, CHR 0x8F]"

definition check_mark :: string where
  "check_mark = [CHR 0xE2, CHR 0x9C, CHR 0x85]"

definition wrench :: string where
  "wrench = [CHR 0xF0, CHR 0x9F, CHR 0x94, CHR 0xA7]"

section \<open>Data model\<close>

type_synonym exn = string
  \<comment> \<open>an exception, by its message \<open>str(e)\<close>\<close>

text \<open>
  Modelled from the spec: the enumeration \<open>MCPState\<close> is declared in \<^verbatim>\<open>backend_utils\<close>,
  which is not among the sources. The handler names two of its members; "permanently
  blocked" is not a member but the flag \<open>_mcp_permanently_blocked\<close> of the backend.
\<close>

datatype MCPState = NOT_INITIALIZED | READY

text \<open>
  A tool definition is a dict; the handler reads the keys \<open>type\<close> and \<open>name\<close> only
  (\<open>None\<close>: the key is absent, so \<open>tool.get\<close> gives \<open>None\<close> or its default). The values
  under these keys are strings. \<open>tool_spec\<close> stands for all other keys.
\<close>

record tool =
  tool_type :: "string option"
  tool_name :: "string option"
  tool_spec :: string

text \<open>A server descriptor: the key \<open>name\<close>, and everything else.\<close>

record server =
  server_name :: "string option"
  server_config :: string

record StreamChunk =
  chunk_type :: string
  status :: "string option"
  content :: "string option"
  source :: "string option"

text \<open>The request parameters: the key \<open>tools\<close> (\<open>None\<close>: absent) and everything else.\<close>

record api_params =
  params_tools :: "tool list option"
  params_rest :: string

type_synonym Function = string

record MultiMCPClient =
  client_id :: nat
  get_server_names :: "string list"

text \<open>\<open>circuit_breaker.config.max_failures\<close>; the breaker's counters are part of the world.\<close>

record circuit_breaker =
  max_failures :: int

datatype warning =
    AllBlockedDuringSetup
  | SetupFailedPermanentlyBlocked int
  | ClientSetupFailed
  | SetupAttemptFailed exn
  | FailedToRecordSuccess exn
  | FailedToRecordFailure exn
  | FailedToSetupSessions exn
  | ToolCallFailed int string exn
  | FunctionFailedAfterRetries string string
  | NoFallbackCallback
  | AllBlocked
  | CallbacksMissing

text \<open>
  What the handler does to the outside, in order: every call of the client set-up, of
  \<open>disconnect\<close>, of the breaker's recorders, of the execution manager, and every
  \<open>logger.warning\<close>. (\<open>logger.info\<close> and \<open>logger.error\<close> are not recorded.)
\<close>

datatype event =
    SetupClient "server list"
  | Disconnect nat
  | RecordSuccess "server list"
  | RecordFailure "server list" exn
  | ExecuteFunction string string
  | Sleep
  | Warning warning

text \<open>
  The handler and the attributes of its backend that it reads and writes, in one record.
  \<open>servers_signature\<close> and \<open>last_mcp_servers_used\<close> are the handler's own; the others are
  attributes of \<open>self.backend\<close>. \<open>world\<close> is the state outside the process (the breaker's
  records, the network); \<open>trace\<close> is the list of events so far, newest last.
\<close>

record 'w MCPHandler =
  mcp_servers :: "server list"
  mcp_state :: MCPState
  mcp_permanently_blocked :: bool
  mcp_connection_failure_notified :: bool
  mcp_circuit_breaker_notified :: bool
  circuit_breakers_enabled :: bool
  mcp_tools_circuit_breaker :: "circuit_breaker option"
  mcp_client :: "MultiMCPClient option"
  backend_functions :: "string \<rightharpoonup> Function"
  mcp_connection_status_chunk :: "StreamChunk option"
  mcp_tool_calls_count :: int
  mcp_tool_failures :: int
  max_mcp_message_history :: int
  servers_signature :: "string list option"
  last_mcp_servers_used :: "server list"
  world :: 'w
  trace :: "event list"

section \<open>Coordination tools\<close>

text \<open>\<open>tool.get("name", "")\<close>\<close>

definition get_name :: "tool \<Rightarrow> string" where
  "get_name t = (case tool_name t of None \<Rightarrow> [] | Some n \<Rightarrow> n)"

definition is_coordination_tool :: "string \<Rightarrow> bool" where
  "is_coordination_tool name = (lower name \<in> {''vote'', ''new_answer''})"

definition should_preserve_coordination_tool ::
  "string \<Rightarrow> tool list \<Rightarrow> bool \<Rightarrow> bool \<Rightarrow> bool" where
  "should_preserve_coordination_tool name original_tools existing_answers_available is_final_agent =
     (if \<not> is_coordination_tool name then False
      else if name \<notin> set (map get_name original_tools) then False
      else if existing_answers_available then lower name = ''vote''
      else lower name = ''new_answer'')"

definition filter_coordination_tools_for_context ::
  "tool list \<Rightarrow> tool list \<Rightarrow> bool \<Rightarrow> bool \<Rightarrow> tool list" where
  "filter_coordination_tools_for_context current_tools original_tools
       existing_answers_available is_final_agent =
     (let coordination_tools = filter (\<lambda>t. is_coordination_tool (get_name t)) current_tools;
          other_tools = filter (\<lambda>t. \<not> is_coordination_tool (get_name t)) current_tools
      in if coordination_tools = [] then current_tools
         else other_tools @
           filter (\<lambda>t. should_preserve_coordination_tool (get_name t) original_tools
                          existing_answers_available is_final_agent) coordination_tools)"

section \<open>Fallback on error\<close>

text \<open>
  The parameters that \<open>handle_mcp_error_and_fallback\<close> builds for the fallback stream
  (the local \<open>fallback_params\<close>), step by step as the source does.
\<close>

definition strip_mcp_tools :: "(string \<rightharpoonup> Function) \<Rightarrow> api_params \<Rightarrow> api_params" where
  "strip_mcp_tools fs p =
     (let p1 = (case params_tools p of None \<Rightarrow> p
                | Some ts \<Rightarrow> p\<lparr>params_tools := Some (filter (\<lambda>t. tool_type t \<noteq> Some ''mcp'') ts)\<rparr>);
          p2 = (case params_tools p1 of None \<Rightarrow> p1
                | Some ts \<Rightarrow> p1\<lparr>params_tools :=
                    Some (filter (\<lambda>t. case tool_name t of None \<Rightarrow> True | Some n \<Rightarrow> fs n = None) ts)\<rparr>)
      in p2)"

definition apply_coordination_policy ::
  "bool \<Rightarrow> bool \<Rightarrow> tool list option \<Rightarrow> bool \<Rightarrow> api_params \<Rightarrow> api_params" where
  "apply_coordination_policy is_multi_agent_context is_final_agent original_tools
       existing_answers_available p =
     (case original_tools of
        None \<Rightarrow> p
      | Some orig \<Rightarrow>
          if is_multi_agent_context \<and> orig \<noteq> [] then
            p\<lparr>params_tools := Some (filter_coordination_tools_for_context
                (case params_tools p of None \<Rightarrow> [] | Some ts \<Rightarrow> ts) orig
                existing_answers_available is_final_agent)\<rparr>
          else p)"

definition add_provider_tools :: "tool list \<Rightarrow> api_params \<Rightarrow> api_params" where
  "add_provider_tools provider_tools p =
     (if provider_tools \<noteq> [] then
        (let ts = (case params_tools p of None \<Rightarrow> [] | Some ts \<Rightarrow> ts);
             existing_tools = set (map (\<lambda>t. (tool_type t, tool_name t)) ts);
             deduplicated_provider_tools =
               filter (\<lambda>t. (tool_type t, tool_name t) \<notin> existing_tools) provider_tools
         in p\<lparr>params_tools := Some (ts @ deduplicated_provider_tools)\<rparr>)
      else p)"

definition fallback_params ::
  "(string \<rightharpoonup> Function) \<Rightarrow> api_params \<Rightarrow> tool list \<Rightarrow> bool \<Rightarrow> bool \<Rightarrow> tool list option
     \<Rightarrow> bool \<Rightarrow> api_params" where
  "fallback_params fs params provider_tools is_multi_agent_context is_final_agent
       original_tools existing_answers_available =
     add_provider_tools provider_tools
       (apply_coordination_policy is_multi_agent_context is_final_agent original_tools
          existing_answers_available (strip_mcp_tools fs params))"

text \<open>
  A chunk stream that was run to its end: the chunks it yielded and, if it ended by
  raising, the exception.
\<close>

type_synonym stream = "StreamChunk list \<times> exn option"

definition error_status_chunk :: "string \<Rightarrow> StreamChunk" where
  "error_status_chunk user_message =
     \<lparr>chunk_type = ''mcp_status'', status = Some ''mcp_error'',
      content = Some user_message, source = Some ''mcp_error''\<rparr>"

definition error_notice_chunk :: "string \<Rightarrow> exn \<Rightarrow> StreamChunk" where
  "error_notice_chunk user_message error =
     \<lparr>chunk_type = ''content'', status = None,
      content = Some ([CHR 0x0A] @ warning_sign @ ''  '' @ user_message @ '' ('' @ error
                       @ ''); continuing without MCP tools'' @ [CHR 0x0A]),
      source = None\<rparr>"

definition handle_mcp_error_and_fallback ::
  "(exn \<Rightarrow> string \<times> string \<times> string) \<Rightarrow> 'w MCPHandler \<Rightarrow> exn \<Rightarrow> api_params \<Rightarrow> tool list
     \<Rightarrow> (api_params \<Rightarrow> stream) \<Rightarrow> bool \<Rightarrow> bool \<Rightarrow> tool list option \<Rightarrow> bool
     \<Rightarrow> stream \<times> 'w MCPHandler" where
  "handle_mcp_error_and_fallback get_error_details h error params provider_tools stream_func
       is_multi_agent_context is_final_agent original_tools existing_answers_available =
     (let failures = mcp_tool_failures h + 1;
          h1 = h\<lparr>mcp_tool_failures := failures\<rparr>;
          call_index_snapshot = mcp_tool_calls_count h1;
          (log_type, user_message, _) = get_error_details error;
          h2 = h1\<lparr>trace := trace h1 @ [Warning (ToolCallFailed call_index_snapshot log_type error)]\<rparr>;
          fp = fallback_params (backend_functions h2) params provider_tools is_multi_agent_context
                 is_final_agent original_tools existing_answers_available;
          (cs, raised) = stream_func fp
      in ((error_status_chunk user_message # error_notice_chunk user_message error # cs, raised), h2))"

section \<open>The outside of the handler\<close>

text \<open>
  The functions of \<^verbatim>\<open>backend_utils\<close>, of the client and of the standard library that the
  handler calls, as parameters. A function that can raise returns a sum (\<open>Inl\<close>: the
  exception) or an \<open>exn option\<close>; one that acts on the outside takes the world and returns
  the new one. The breaker's filter returns a list and does not raise.
\<close>

datatype json = Json string

text \<open>
  How \<open>json.loads\<close> fails: with a \<open>ValueError\<close> (\<open>json.JSONDecodeError\<close> is one), which
  \<open>execute_mcp_function_with_retry\<close> catches, or with any other exception
  (\<open>RecursionError\<close> on deeply nested input), which it does not catch.
\<close>

datatype json_failure = ValueError string | OtherException exn

text \<open>
  What the execution manager returns: a dict with the key \<open>error\<close>, or any other result,
  given by its \<open>str()\<close> and by \<open>result.content[0].text\<close> where that exists.
\<close>

datatype exec_result = ErrorResult string | ToolResult string "string option"

datatype message =
    Message string
  | function_call string string string
  | function_call_output string string

record 'w env =
  normalize_mcp_servers :: "server list \<Rightarrow> exn + server list"
  separate_stdio_streamable_servers :: "server list \<Rightarrow> exn + server list"
  apply_circuit_breaker_filtering :: "'w \<Rightarrow> server list \<Rightarrow> server list"
  setup_mcp_client :: "'w \<Rightarrow> server list \<Rightarrow> (exn + MultiMCPClient option) \<times> 'w"
  convert_tools_to_functions :: "MultiMCPClient \<Rightarrow> exn + (string \<rightharpoonup> Function)"
  record_success :: "'w \<Rightarrow> server list \<Rightarrow> exn option \<times> 'w"
  record_failure :: "'w \<Rightarrow> server list \<Rightarrow> exn \<Rightarrow> exn option \<times> 'w"
  disconnect :: "'w \<Rightarrow> MultiMCPClient \<Rightarrow> exn option \<times> 'w"
  json_loads :: "string \<Rightarrow> json_failure + json"
  execute_function_with_retry ::
    "'w \<Rightarrow> string \<Rightarrow> json \<Rightarrow> (string \<rightharpoonup> Function) \<Rightarrow> (exn + exec_result) \<times> string list \<times> 'w"
  trim_message_history :: "message list \<Rightarrow> int \<Rightarrow> message list"

definition log_event :: "event \<Rightarrow> 'w MCPHandler \<Rightarrow> 'w MCPHandler" where
  "log_event e h = h\<lparr>trace := trace h @ [e]\<rparr>"

section \<open>Session set-up\<close>

text \<open>The decimal digits of a number, as an f-string prints \<open>len(...)\<close>.\<close>

definition digit_char :: "nat \<Rightarrow> char" where
  "digit_char d = char_of (of_char (CHR ''0'') + d)"

fun decimal :: "nat \<Rightarrow> string" where
  "decimal n =
     (if n < 10 then [digit_char n] else decimal (n div 10) @ [digit_char (n mod 10)])"

definition cleanup_mcp :: "'w env \<Rightarrow> 'w MCPHandler \<Rightarrow> 'w MCPHandler" where
  "cleanup_mcp env h =
     (case mcp_client h of
        None \<Rightarrow> h
      | Some client \<Rightarrow>
          (let (r, w) = disconnect env (world h) client;
               h1 = log_event (Disconnect (client_id client)) (h\<lparr>world := w\<rparr>)
           in h1\<lparr>mcp_client := None, mcp_state := NOT_INITIALIZED,
                 backend_functions := Map.empty\<rparr>))"

definition connected_chunk :: "string list \<Rightarrow> StreamChunk" where
  "connected_chunk connected_server_names =
     \<lparr>chunk_type = ''mcp_status'', status = Some ''mcp_connected'',
      content = Some (check_mark @ '' [MCP] Connected to ''
                       @ decimal (length connected_server_names) @ '' servers''),
      source = Some ''mcp_setup''\<rparr>"

text \<open>
  \<open>_attempt_mcp_setup\<close>: the whole body is inside \<open>try\<close>, so an exception of the client
  set-up or of the tool conversion gives \<open>False\<close>; an exception of \<open>record_success\<close> is
  caught by the inner \<open>try\<close> and only logged.
\<close>

definition attempt_mcp_setup ::
  "'w env \<Rightarrow> 'w MCPHandler \<Rightarrow> server list \<Rightarrow> circuit_breaker option \<Rightarrow> server list
     \<Rightarrow> bool \<times> 'w MCPHandler" where
  "attempt_mcp_setup env h servers_to_use breaker original_servers =
     (let h1 = h\<lparr>last_mcp_servers_used := servers_to_use\<rparr>;
          (r, w) = setup_mcp_client env (world h1) servers_to_use;
          h2 = log_event (SetupClient servers_to_use) (h1\<lparr>world := w\<rparr>)
      in case r of
           Inl e \<Rightarrow> (False, log_event (Warning (SetupAttemptFailed e)) h2)
         | Inr None \<Rightarrow>
             (False,
              if \<not> mcp_connection_failure_notified h2
              then (log_event (Warning ClientSetupFailed) h2)\<lparr>mcp_connection_failure_notified := True\<rparr>
              else h2)
         | Inr (Some client) \<Rightarrow>
             (case convert_tools_to_functions env client of
                Inl e \<Rightarrow> (False, log_event (Warning (SetupAttemptFailed e)) h2)
              | Inr fs \<Rightarrow>
                  (let h3 = h2\<lparr>backend_functions := backend_functions h2 ++ fs,
                               mcp_client := Some client, mcp_state := READY\<rparr>;
                       connected_server_names = get_server_names client;
                       h4 = (if connected_server_names \<noteq> []
                             then h3\<lparr>mcp_connection_status_chunk :=
                                      Some (connected_chunk connected_server_names)\<rparr>
                             else h3);
                       h5 = (if circuit_breakers_enabled h4 \<and> breaker \<noteq> None then
                               if connected_server_names \<noteq> [] then
                                 (let connected_server_configs =
                                        filter (\<lambda>s. case server_name s of None \<Rightarrow> False
                                                     | Some n \<Rightarrow> n \<in> set connected_server_names)
                                          servers_to_use
                                  in if connected_server_configs \<noteq> [] then
                                       (let (r, w) = record_success env (world h4) connected_server_configs;
                                            h' = log_event (RecordSuccess connected_server_configs)
                                                   (h4\<lparr>world := w\<rparr>)
                                        in case r of None \<Rightarrow> h'
                                           | Some e \<Rightarrow> log_event (Warning (FailedToRecordSuccess e)) h')
                                     else h4)
                               else h4
                             else h4)
                   in (True, h5))))"

text \<open>
  The loop \<open>for attempt in range(1, max_attempts + 1)\<close> of \<open>setup_mcp_tools\<close>, by
  recursion on the attempts that are left.
\<close>

fun setup_attempts ::
  "'w env \<Rightarrow> circuit_breaker \<Rightarrow> server list \<Rightarrow> int \<Rightarrow> int list \<Rightarrow> 'w MCPHandler
     \<Rightarrow> 'w MCPHandler" where
  "setup_attempts env breaker mcp_tools_servers max_attempts [] h = h"
| "setup_attempts env breaker mcp_tools_servers max_attempts (attempt # rest) h =
     (let filtered_servers = apply_circuit_breaker_filtering env (world h) mcp_tools_servers
      in if filtered_servers = [] then
           (let h1 = (if \<not> mcp_circuit_breaker_notified h
                      then (log_event (Warning AllBlockedDuringSetup) h)
                             \<lparr>mcp_circuit_breaker_notified := True\<rparr>
                      else h)
            in if attempt \<ge> max_attempts then h1\<lparr>mcp_permanently_blocked := True\<rparr> else h1)
         else
           (let (success, h1) = attempt_mcp_setup env h filtered_servers (Some breaker) mcp_tools_servers
            in if success then h1
               else if attempt \<ge> max_attempts then
                 (log_event (Warning (SetupFailedPermanentlyBlocked max_attempts)) h1)
                   \<lparr>mcp_permanently_blocked := True\<rparr>
               else setup_attempts env breaker mcp_tools_servers max_attempts rest
                      (log_event Sleep h1)))"

text \<open>\<open>tuple(sorted([s.get("name", "") for s in normalized_servers]))\<close>\<close>

definition signature_of :: "server list \<Rightarrow> string list" where
  "signature_of normalized_servers =
     sort (map (\<lambda>s. case server_name s of None \<Rightarrow> [] | Some n \<Rightarrow> n) normalized_servers)"

text \<open>
  \<open>if self._servers_signature != new_signature: ...\<close>: the signature is stored, the state
  is reset and, if there is a client, \<open>cleanup_mcp\<close> runs.
\<close>

definition reinitialize_on_change ::
  "'w env \<Rightarrow> string list \<Rightarrow> 'w MCPHandler \<Rightarrow> 'w MCPHandler" where
  "reinitialize_on_change env new_signature h =
     (if servers_signature h \<noteq> Some new_signature then
        (let h' = h\<lparr>servers_signature := Some new_signature, mcp_state := NOT_INITIALIZED\<rparr>
         in if mcp_client h' \<noteq> None then cleanup_mcp env h' else h')
      else h)"

text \<open>
  The body of the \<open>try\<close> of \<open>setup_mcp_tools\<close>. \<open>Inl (e, h, l)\<close>: it raised \<open>e\<close> in the
  state \<open>h\<close>, where \<open>l\<close> is the local \<open>mcp_tools_servers\<close> if it was bound by then.
\<close>

definition setup_body ::
  "'w env \<Rightarrow> 'w MCPHandler \<Rightarrow> MCPState
     \<Rightarrow> (exn \<times> 'w MCPHandler \<times> server list option) + 'w MCPHandler" where
  "setup_body env h current_state =
     (case normalize_mcp_servers env (mcp_servers h) of
        Inl e \<Rightarrow> Inl (e, h, None)
      | Inr normalized_servers \<Rightarrow>
          (let new_signature = signature_of normalized_servers
           in if servers_signature h = Some new_signature \<and> current_state = READY then Inr h
              else
                (let h1 = reinitialize_on_change env new_signature h
                 in case separate_stdio_streamable_servers env normalized_servers of
                      Inl e \<Rightarrow> Inl (e, h1, None)
                    | Inr mcp_tools_servers \<Rightarrow>
                        if mcp_tools_servers = [] then Inr h1
                        else
                          (case mcp_tools_circuit_breaker h1 of
                             Some breaker \<Rightarrow>
                               if circuit_breakers_enabled h1 then
                                 Inr (setup_attempts env breaker mcp_tools_servers
                                        (max_failures breaker) [1..max_failures breaker] h1)
                               else Inr (snd (attempt_mcp_setup env h1 mcp_tools_servers None
                                                mcp_tools_servers))
                           | None \<Rightarrow>
                               Inr (snd (attempt_mcp_setup env h1 mcp_tools_servers None
                                           mcp_tools_servers))))))"

text \<open>The \<open>except Exception\<close> branch of \<open>setup_mcp_tools\<close>.\<close>

definition setup_failed ::
  "'w env \<Rightarrow> exn \<Rightarrow> 'w MCPHandler \<Rightarrow> server list option \<Rightarrow> 'w MCPHandler" where
  "setup_failed env e h mcp_tools_servers =
     (let h1 = (if circuit_breakers_enabled h \<and> mcp_tools_circuit_breaker h \<noteq> None then
                  (let servers_to_use =
                         (if last_mcp_servers_used h \<noteq> [] then last_mcp_servers_used h
                          else (case mcp_tools_servers of None \<Rightarrow> [] | Some l \<Rightarrow> l));
                       (r, w) = record_failure env (world h) servers_to_use e;
                       h' = log_event (RecordFailure servers_to_use e) (h\<lparr>world := w\<rparr>)
                   in case r of None \<Rightarrow> h'
                      | Some cb_error \<Rightarrow> log_event (Warning (FailedToRecordFailure cb_error)) h')
                else h);
          h2 = log_event (Warning (FailedToSetupSessions e)) h1
      in h2\<lparr>mcp_client := None, mcp_state := NOT_INITIALIZED, backend_functions := Map.empty\<rparr>)"

definition setup_mcp_tools :: "'w env \<Rightarrow> 'w MCPHandler \<Rightarrow> 'w MCPHandler" where
  "setup_mcp_tools env h =
     (if mcp_servers h = [] then h
      else
        (let current_state = mcp_state h
         in if current_state = READY then h
            else if mcp_permanently_blocked h then h
            else (case setup_body env h current_state of
                    Inr h' \<Rightarrow> h'
                  | Inl (e, h', l) \<Rightarrow> setup_failed env e h' l)))"

section \<open>Executing one captured call\<close>

text \<open>
  A captured call is a dict with the keys \<open>name\<close> and \<open>arguments\<close> and, possibly,
  \<open>call_id\<close>.
\<close>

record call =
  call_id :: "string option"
  call_name :: string
  call_arguments :: string

text \<open>The local \<open>stats_callback\<close> of \<open>execute_mcp_function_with_retry\<close>.\<close>

definition stats_callback :: "string \<Rightarrow> 'w MCPHandler \<Rightarrow> 'w MCPHandler" where
  "stats_callback action h =
     (if action = ''increment_calls'' then h\<lparr>mcp_tool_calls_count := mcp_tool_calls_count h + 1\<rparr>
      else if action = ''increment_failures'' then h\<lparr>mcp_tool_failures := mcp_tool_failures h + 1\<rparr>
      else h)"

text \<open>
  \<open>execute_mcp_function_with_retry\<close>. The execution manager is given the world and returns
  its result, the actions it passed to \<open>stats_callback\<close>, in order, and the new world
  (which holds what it did through \<open>circuit_breaker_callback\<close>).
\<close>

definition execute_mcp_function_with_retry ::
  "'w env \<Rightarrow> 'w MCPHandler \<Rightarrow> string \<Rightarrow> string
     \<Rightarrow> (exn + string \<times> exec_result) \<times> 'w MCPHandler" where
  "execute_mcp_function_with_retry env h function_name arguments_json =
     (case json_loads env arguments_json of
        Inl (ValueError e) \<Rightarrow>
          (let error_str = ''Error: Invalid JSON arguments: '' @ e
           in (Inr (error_str, ErrorResult error_str), h))
      | Inl (OtherException e) \<Rightarrow> (Inl e, h)
      | Inr args \<Rightarrow>
          (let (r, actions, w) =
                 execute_function_with_retry env (world h) function_name args (backend_functions h);
               h1 = fold stats_callback actions
                      (log_event (ExecuteFunction function_name arguments_json) (h\<lparr>world := w\<rparr>))
           in case r of
                Inl e \<Rightarrow> (Inl e, h1)
              | Inr (ErrorResult err) \<Rightarrow> (Inr (''Error: '' @ err, ErrorResult err), h1)
              | Inr (ToolResult str pretty) \<Rightarrow> (Inr (str, ToolResult str pretty), h1)))"

definition status_chunk :: "string \<Rightarrow> string \<Rightarrow> string \<Rightarrow> StreamChunk" where
  "status_chunk st msg src =
     \<lparr>chunk_type = ''mcp_status'', status = Some st, content = Some msg, source = Some src\<rparr>"

definition done_chunk :: StreamChunk where
  "done_chunk = \<lparr>chunk_type = ''done'', status = None, content = None, source = None\<rparr>"

definition tool_called_chunk :: "string \<Rightarrow> StreamChunk" where
  "tool_called_chunk function_name =
     status_chunk ''mcp_tool_called'' (wrench @ '' [MCP Tool] Calling '' @ function_name @ ''...'')
       (''mcp_'' @ function_name)"

definition get_call_id :: "call \<Rightarrow> string" where
  "get_call_id c = (case call_id c of None \<Rightarrow> [] | Some i \<Rightarrow> i)"

text \<open>
  The state of the loop over the captured calls: the handler, \<open>updated_messages\<close> and
  \<open>mcp_functions_executed\<close>.
\<close>

type_synonym 'w loop_state = "'w MCPHandler \<times> message list \<times> bool"

text \<open>
  One round of \<open>for call in captured_function_calls\<close>: the chunks it yields and the new
  state. \<open>fs\<close> is the local \<open>functions\<close>.
\<close>

definition execute_call ::
  "'w env \<Rightarrow> (call \<Rightarrow> string \<Rightarrow> exn + message option) option \<Rightarrow> (string \<rightharpoonup> Function)
     \<Rightarrow> call \<Rightarrow> 'w loop_state \<Rightarrow> StreamChunk list \<times> 'w loop_state" where
  "execute_call env format_tool_result_callback fs c acc =
     (let (h, updated_messages, executed) = acc;
          function_name = call_name c
      in if fs function_name = None then ([], acc)
         else
           (let (r, h1) = execute_mcp_function_with_retry env h function_name (call_arguments c)
            in case r of
                 Inl e \<Rightarrow> ([tool_called_chunk function_name], (h1, updated_messages, executed))
               | Inr (result, result_obj) \<Rightarrow>
                   if take 6 result = ''Error:'' then
                     ([tool_called_chunk function_name],
                      (log_event (Warning (FunctionFailedAfterRetries function_name result)) h1,
                       updated_messages, executed))
                   else
                     (let function_call_msg =
                            function_call (get_call_id c) function_name (call_arguments c);
                          default_msg = function_call_output (get_call_id c) result;
                          function_output_msg =
                            (case format_tool_result_callback of
                               None \<Rightarrow> default_msg
                             | Some format \<Rightarrow>
                                 (case format c result of
                                    Inr (Some formatted_msg) \<Rightarrow> formatted_msg
                                  | Inr None \<Rightarrow> default_msg
                                  | Inl e \<Rightarrow> default_msg));
                          pretty_result =
                            (case result_obj of
                               ToolResult str (Some pretty) \<Rightarrow> pretty
                             | _ \<Rightarrow> result)
                      in ([tool_called_chunk function_name,
                           status_chunk ''function_call''
                             (''Arguments for Calling '' @ function_name @ '': '' @ call_arguments c)
                             (''mcp_'' @ function_name),
                           status_chunk ''function_call_output''
                             (''Results for Calling '' @ function_name @ '': '' @ pretty_result)
                             (''mcp_'' @ function_name),
                           status_chunk ''mcp_tool_response''
                             (check_mark @ '' [MCP Tool] '' @ function_name @ '' completed'')
                             (''mcp_'' @ function_name)],
                          (h1, updated_messages @ [function_call_msg, function_output_msg], True)))))"

fun execute_calls ::
  "'w env \<Rightarrow> (call \<Rightarrow> string \<Rightarrow> exn + message option) option \<Rightarrow> (string \<rightharpoonup> Function)
     \<Rightarrow> call list \<Rightarrow> 'w loop_state \<Rightarrow> StreamChunk list \<times> 'w loop_state" where
  "execute_calls env format fs [] acc = ([], acc)"
| "execute_calls env format fs (c # cs) acc =
     (let (chunks1, acc1) = execute_call env format fs c acc;
          (chunks2, acc2) = execute_calls env format fs cs acc1
      in (chunks1 @ chunks2, acc2))"

section \<open>The streaming engine\<close>

text \<open>A chunk of the backend's stream: its attribute \<open>type\<close>, if it has one, and the rest.\<close>

record raw_chunk =
  raw_type :: "string option"
  raw_data :: string

text \<open>
  The callbacks of \<open>execute_mcp_functions_and_recurse\<close>; \<open>None\<close>: not given. A stream
  that \<open>create_stream_callback\<close> opens is its chunks and, if reading it ends by raising, the
  exception.
\<close>

record 'w callbacks =
  build_api_params_callback :: "(message list \<Rightarrow> tool list \<Rightarrow> exn + api_params) option"
  create_stream_callback ::
    "('w \<Rightarrow> api_params \<Rightarrow> (exn + raw_chunk list \<times> exn option) \<times> 'w) option"
  detect_function_calls_callback ::
    "(raw_chunk \<Rightarrow> call option \<Rightarrow> call list \<Rightarrow> exn + call option \<times> call list \<times> bool) option"
  process_chunk_callback :: "(raw_chunk \<Rightarrow> exn + StreamChunk option) option"
  format_tool_result_callback :: "(call \<Rightarrow> string \<Rightarrow> exn + message option) option"

text \<open>
  The first part of the engine, up to \<open># 2) Stream a fresh response\<close>: it returns from the
  generator (\<open>Return\<close>) or goes on with the chunks yielded so far, the handler and
  \<open>updated_messages\<close>.
\<close>

datatype 'w captured_result =
    Return stream "'w MCPHandler"
  | Continue "StreamChunk list" "'w MCPHandler" "message list"

definition blocked_chunk :: StreamChunk where
  "blocked_chunk =
     status_chunk ''mcp_blocked'' (warning_sign @ '' [MCP] All servers blocked by circuit breaker'')
       ''circuit_breaker''"

definition execute_captured ::
  "'w env \<Rightarrow> 'w callbacks \<Rightarrow> (message list \<Rightarrow> call list \<Rightarrow> stream) option \<Rightarrow> 'w MCPHandler
     \<Rightarrow> message list \<Rightarrow> call list \<Rightarrow> 'w captured_result" where
  "execute_captured env cbs fallback_stream_callback h updated_messages captured_function_calls =
     (if captured_function_calls = [] then Continue [] h updated_messages
      else
        (let fs = backend_functions h;
             non_mcp_functions = filter (\<lambda>c. fs (call_name c) = None) captured_function_calls
         in if non_mcp_functions \<noteq> [] then
              (case fallback_stream_callback of
                 Some fallback \<Rightarrow> Return (fallback updated_messages non_mcp_functions) h
               | None \<Rightarrow> Return ([done_chunk], None) (log_event (Warning NoFallbackCallback) h))
            else if circuit_breakers_enabled h \<and> mcp_tools_circuit_breaker h \<noteq> None
                    \<and> apply_circuit_breaker_filtering env (world h) (last_mcp_servers_used h) = []
            then
              (if \<not> mcp_circuit_breaker_notified h then
                 Return ([blocked_chunk, done_chunk], None)
                   ((log_event (Warning AllBlocked) h)\<lparr>mcp_circuit_breaker_notified := True\<rparr>)
               else Return ([done_chunk], None) h)
            else
              (let (chunks, h1, msgs, executed) =
                     execute_calls env (format_tool_result_callback cbs) fs captured_function_calls
                       (h, updated_messages, False);
                   msgs' = (if executed
                            then trim_message_history env msgs (max_mcp_message_history h1)
                            else msgs)
               in Continue chunks h1 msgs')))"

text \<open>
  The loop \<open>async for chunk in stream\<close>: the chunks it yields, \<open>captured_in_iteration\<close>,
  \<open>response_completed\<close>, and the exception if \<open>process_chunk_callback\<close> raised.
\<close>

fun consume_stream ::
  "(raw_chunk \<Rightarrow> call option \<Rightarrow> call list \<Rightarrow> exn + call option \<times> call list \<times> bool)
     \<Rightarrow> (raw_chunk \<Rightarrow> exn + StreamChunk option)
     \<Rightarrow> raw_chunk list \<Rightarrow> call option \<Rightarrow> call list
     \<Rightarrow> StreamChunk list \<times> call list \<times> bool \<times> exn option" where
  "consume_stream detect process [] current_function_call captured_in_iteration =
     ([], captured_in_iteration, False, None)"
| "consume_stream detect process (chunk # rest) current_function_call captured_in_iteration =
     (let (current', captured', consumed) =
            (case detect chunk current_function_call captured_in_iteration of
               Inl e \<Rightarrow> (current_function_call, captured_in_iteration, False)
             | Inr r \<Rightarrow> r)
      in case (if consumed then Inr None else process chunk) of
           Inl e \<Rightarrow> ([], captured', False, Some e)
         | Inr processed \<Rightarrow>
             (let out = (case processed of None \<Rightarrow> [] | Some c \<Rightarrow> [c])
              in if raw_type chunk = Some ''response.completed'' then (out, captured', True, None)
                 else
                   (let (chunks, captured'', completed, raised) =
                          consume_stream detect process rest current' captured'
                    in (out @ chunks, captured'', completed, raised))))"

definition session_complete_chunk :: StreamChunk where
  "session_complete_chunk =
     status_chunk ''mcp_session_complete'' (check_mark @ '' [MCP] Session completed'') ''mcp_session''"

text \<open>
  \<open>execute_mcp_functions_and_recurse\<close>, run to the end of the generator. The source
  recurses without a bound, so the model takes fuel: the number of nested calls it may
  make; \<open>None\<close>: the fuel ran out. The recursive call does not pass
  \<open>fallback_stream_callback\<close> on.
\<close>

fun execute_mcp_functions_and_recurse ::
  "nat \<Rightarrow> 'w env \<Rightarrow> 'w callbacks \<Rightarrow> (message list \<Rightarrow> call list \<Rightarrow> stream) option
     \<Rightarrow> 'w MCPHandler \<Rightarrow> message list \<Rightarrow> tool list \<Rightarrow> call list
     \<Rightarrow> (stream \<times> 'w MCPHandler) option" where
  "execute_mcp_functions_and_recurse 0 env cbs fallback_stream_callback h current_messages
       tool_defs captured_function_calls = None"
| "execute_mcp_functions_and_recurse (Suc fuel) env cbs fallback_stream_callback h current_messages
       tool_defs captured_function_calls =
     (case execute_captured env cbs fallback_stream_callback h current_messages
             captured_function_calls of
        Return s h' \<Rightarrow> Some (s, h')
      | Continue chunks h1 updated_messages \<Rightarrow>
          (case (build_api_params_callback cbs, create_stream_callback cbs,
                 detect_function_calls_callback cbs, process_chunk_callback cbs) of
             (Some build, Some create, Some detect, Some process) \<Rightarrow>
               (case build updated_messages tool_defs of
                  Inl e \<Rightarrow> Some ((chunks, Some e), h1)
                | Inr params \<Rightarrow>
                    (let (opened, w) = create (world h1) params;
                         h2 = h1\<lparr>world := w\<rparr>
                     in case opened of
                          Inl e \<Rightarrow> Some ((chunks, Some e), h2)
                        | Inr (raw_chunks, stream_error) \<Rightarrow>
                            (let (out, captured_in_iteration, response_completed, raised) =
                                   consume_stream detect process raw_chunks None []
                             in case raised of
                                  Some e \<Rightarrow> Some ((chunks @ out, Some e), h2)
                                | None \<Rightarrow>
                                    if response_completed then
                                      if captured_in_iteration \<noteq> [] then
                                        (case execute_mcp_functions_and_recurse fuel env cbs None h2
                                                updated_messages tool_defs captured_in_iteration of
                                           None \<Rightarrow> None
                                         | Some ((next_chunks, r), h3) \<Rightarrow>
                                             Some ((chunks @ out @ next_chunks, r), h3))
                                      else
                                        Some ((chunks @ out @ [session_complete_chunk, done_chunk],
                                               None), h2)
                                    else
                                      (case stream_error of
                                         Some e \<Rightarrow> Some ((chunks @ out, Some e), h2)
                                       | None \<Rightarrow> Some ((chunks @ out @ [done_chunk], None), h2)))))
           | _ \<Rightarrow> Some ((chunks @ [done_chunk], None),
                         log_event (Warning CallbacksMissing) h1)))"

section \<open>Observations\<close>

text \<open>\<open>params.get("tools", [])\<close>\<close>

definition tools_of :: "api_params \<Rightarrow> tool list" where
  "tools_of p = (case params_tools p of None \<Rightarrow> [] | Some ts \<Rightarrow> ts)"

text \<open>
  A tool of this layer: it carries the type \<open>mcp\<close>, or its name is a key of the functions
  registry.
\<close>

definition layer_tool :: "(string \<rightharpoonup> Function) \<Rightarrow> tool \<Rightarrow> bool" where
  "layer_tool fs t =
     (tool_type t = Some ''mcp'' \<or> (case tool_name t of None \<Rightarrow> False | Some n \<Rightarrow> fs n \<noteq> None))"

text \<open>The connection attempts of a trace, and the number of its "all blocked" warnings.\<close>

definition connection_attempts :: "event list \<Rightarrow> event list" where
  "connection_attempts evs = filter (\<lambda>e. case e of SetupClient _ \<Rightarrow> True | _ \<Rightarrow> False) evs"

definition all_blocked_warnings :: "event list \<Rightarrow> nat" where
  "all_blocked_warnings evs = length (filter (\<lambda>e. e = Warning AllBlockedDuringSetup) evs)"

text \<open>The calls of the execution manager in a trace.\<close>

definition executed_calls :: "event list \<Rightarrow> event list" where
  "executed_calls evs = filter (\<lambda>e. case e of ExecuteFunction _ _ \<Rightarrow> True | _ \<Rightarrow> False) evs"


text \<open>The chunks of type \<open>done\<close> in a stream.\<close>

definition done_chunks :: "StreamChunk list \<Rightarrow> StreamChunk list" where
  "done_chunks cs = filter (\<lambda>c. chunk_type c = ''done'') cs"


text \<open>
  Whether a call of the engine reaches its recursive call (the turn completed with
  captured calls and nothing raised), and then with which handler, messages and calls.
\<close>

definition next_turn ::
  "'w env \<Rightarrow> 'w callbacks \<Rightarrow> (message list \<Rightarrow> call list \<Rightarrow> stream) option \<Rightarrow> 'w MCPHandler
     \<Rightarrow> message list \<Rightarrow> tool list \<Rightarrow> call list
     \<Rightarrow> ('w MCPHandler \<times> message list \<times> call list) option" where
  "next_turn env cbs fb h msgs tool_defs captured =
     (case execute_captured env cbs fb h msgs captured of
        Return s h' \<Rightarrow> None
      | Continue chunks h1 updated_messages \<Rightarrow>
          (case (build_api_params_callback cbs, create_stream_callback cbs,
                 detect_function_calls_callback cbs, process_chunk_callback cbs) of
             (Some build, Some create, Some detect, Some process) \<Rightarrow>
               (case build updated_messages tool_defs of
                  Inl e \<Rightarrow> None
                | Inr params \<Rightarrow>
                    (case create (world h1) params of
                       (Inl e, w) \<Rightarrow> None
                     | (Inr (raw_chunks, stream_error), w) \<Rightarrow>
                         (case consume_stream detect process raw_chunks None [] of
                            (out, captured_in_iteration, response_completed, raised) \<Rightarrow>
                              if raised = None \<and> response_completed \<and> captured_in_iteration \<noteq> []
                              then Some (h1\<lparr>world := w\<rparr>, updated_messages, captured_in_iteration)
                              else None)))
           | _ \<Rightarrow> None))"

text \<open>
  The backend stops asking for calls within \<open>n\<close> nested calls of the engine: the chain of
  recursive calls that starts at these arguments is shorter than \<open>n\<close>.
\<close>

fun returns_within ::
  "nat \<Rightarrow> 'w env \<Rightarrow> 'w callbacks \<Rightarrow> (message list \<Rightarrow> call list \<Rightarrow> stream) option \<Rightarrow> 'w MCPHandler
     \<Rightarrow> message list \<Rightarrow> tool list \<Rightarrow> call list \<Rightarrow> bool" where
  "returns_within 0 env cbs fb h msgs tool_defs captured = False"
| "returns_within (Suc n) env cbs fb h msgs tool_defs captured =
     (case next_turn env cbs fb h msgs tool_defs captured of
        None \<Rightarrow> True
      | Some (h2, msgs2, captured2) \<Rightarrow> returns_within n env cbs None h2 msgs2 tool_defs captured2)"

section \<open>Example inputs\<close>

definition t_vote :: tool where
  "t_vote = \<lparr>tool_type = Some ''function'', tool_name = Some ''vote'', tool_spec = ''{}''\<rparr>"

definition t_new_answer :: tool where
  "t_new_answer = \<lparr>tool_type = Some ''function'', tool_name = Some ''new_answer'', tool_spec = ''{}''\<rparr>"

definition t_search :: tool where
  "t_search = \<lparr>tool_type = Some ''function'', tool_name = Some ''search'', tool_spec = ''{}''\<rparr>"

definition t_lookup :: tool where
  "t_lookup = \<lparr>tool_type = Some ''function'', tool_name = Some ''lookup'', tool_spec = ''{}''\<rparr>"

definition t_remote :: tool where
  "t_remote = \<lparr>tool_type = Some ''mcp'', tool_name = None, tool_spec = ''server_url''\<rparr>"

definition t_web :: tool where
  "t_web = \<lparr>tool_type = Some ''web_search'', tool_name = None, tool_spec = ''{}''\<rparr>"

definition registry_lookup :: "string \<rightharpoonup> Function" where
  "registry_lookup = [''lookup'' \<mapsto> ''lookup_fn'']"

definition request :: api_params where
  "request = \<lparr>params_tools = Some [t_remote, t_lookup, t_vote, t_search, t_new_answer],
              params_rest = ''model''\<rparr>"

definition srv_a :: server where
  "srv_a = \<lparr>server_name = Some ''alpha'', server_config = ''stdio''\<rparr>"

definition srv_b :: server where
  "srv_b = \<lparr>server_name = Some ''beta'', server_config = ''stdio''\<rparr>"

definition srv_c :: server where
  "srv_c = \<lparr>server_name = Some ''gamma'', server_config = ''stdio''\<rparr>"

definition client_ab :: MultiMCPClient where
  "client_ab = \<lparr>client_id = 1, get_server_names = [''alpha'', ''beta'']\<rparr>"

text \<open>
  An outside where every server answers: the world counts the calls made to it; only
  \<open>{}\<close> parses as JSON, a longer text than 1000 characters exhausts the parser's recursion,
  any other text is a decoding error; every tool returns 42.
\<close>

definition env_ok :: "nat env" where
  "env_ok =
     \<lparr>normalize_mcp_servers = Inr,
      separate_stdio_streamable_servers = Inr,
      apply_circuit_breaker_filtering = (\<lambda>w xs. xs),
      setup_mcp_client = (\<lambda>w xs. (Inr (Some client_ab), Suc w)),
      convert_tools_to_functions = (\<lambda>c. Inr registry_lookup),
      record_success = (\<lambda>w xs. (None, Suc w)),
      record_failure = (\<lambda>w xs e. (None, Suc w)),
      disconnect = (\<lambda>w c. (None, Suc w)),
      json_loads =
        (\<lambda>s. if s = ''{}'' then Inr (Json s)
             else if length s > 1000 then Inl (OtherException ''maximum recursion depth exceeded'')
             else Inl (ValueError ''Expecting value'')),
      execute_function_with_retry =
        (\<lambda>w n a fs. (Inr (ToolResult ''42'' None), [''increment_calls''], Suc w)),
      trim_message_history = (\<lambda>ms n. ms)\<rparr>"

text \<open>The same outside with a breaker that rejects every server.\<close>

definition env_blocked :: "nat env" where
  "env_blocked = env_ok\<lparr>apply_circuit_breaker_filtering := (\<lambda>w xs. [])\<rparr>"

text \<open>A handler before its first set-up, with a breaker of \<open>max_failures = m\<close>.\<close>

definition h_fresh :: "int \<Rightarrow> nat MCPHandler" where
  "h_fresh m =
     \<lparr>mcp_servers = [srv_a, srv_b],
      mcp_state = NOT_INITIALIZED,
      mcp_permanently_blocked = False,
      mcp_connection_failure_notified = False,
      mcp_circuit_breaker_notified = False,
      circuit_breakers_enabled = True,
      mcp_tools_circuit_breaker = Some \<lparr>max_failures = m\<rparr>,
      mcp_client = None,
      backend_functions = Map.empty,
      mcp_connection_status_chunk = None,
      mcp_tool_calls_count = 0,
      mcp_tool_failures = 0,
      max_mcp_message_history = 200,
      servers_signature = None,
      last_mcp_servers_used = [],
      world = 0,
      trace = []\<rparr>"

text \<open>A handler after a successful set-up with the servers alpha and beta.\<close>

definition h_ready :: "nat MCPHandler" where
  "h_ready =
     (h_fresh 3)\<lparr>mcp_state := READY, mcp_client := Some client_ab,
                 backend_functions := registry_lookup,
                 servers_signature := Some [''alpha'', ''beta''],
                 last_mcp_servers_used := [srv_a, srv_b]\<rparr>"

text \<open>The same handler after the configuration was changed to the server gamma.\<close>

definition h_drift :: "nat MCPHandler" where
  "h_drift = h_ready\<lparr>mcp_servers := [srv_c]\<rparr>"

definition error_details :: "exn \<Rightarrow> string \<times> string \<times> string" where
  "error_details e = (''connection'', ''MCP connection failed'', ''network'')"

definition hello_chunk :: StreamChunk where
  "hello_chunk = \<lparr>chunk_type = ''content'', status = None, content = Some ''hello'', source = None\<rparr>"

definition plain_stream :: "api_params \<Rightarrow> stream" where
  "plain_stream p = ([hello_chunk, done_chunk], None)"





definition raw_text :: raw_chunk where
  "raw_text = \<lparr>raw_type = Some ''response.output_text.delta'', raw_data = ''hello''\<rparr>"


text \<open>Arguments nested so deeply that \<open>json.loads\<close> raises \<open>RecursionError\<close>.\<close>

definition deep_payload :: string where
  "deep_payload = replicate 100000 (CHR ''['')"

definition call_lookup_deep :: call where
  "call_lookup_deep = \<lparr>call_id = Some ''c4'', call_name = ''lookup'', call_arguments = deep_payload\<rparr>"

text \<open>An outside whose breaker rejects every server in the world 0 only.\<close>

definition env_trip :: "nat env" where
  "env_trip = env_ok\<lparr>apply_circuit_breaker_filtering := (\<lambda>w xs. if w = 0 then [] else xs)\<rparr>"

definition raw_call :: raw_chunk where
  "raw_call = \<lparr>raw_type = Some ''response.output_item.done'', raw_data = ''function_call''\<rparr>"

definition raw_completed :: raw_chunk where
  "raw_completed = \<lparr>raw_type = Some ''response.completed'', raw_data = ''end''\<rparr>"

text \<open>
  A backend whose first stream (in the world 0) asks for the call \<open>c\<close> and completes, and
  whose later streams are one text chunk and the completion signal.
\<close>

definition callbacks_capture :: "call \<Rightarrow> nat callbacks" where
  "callbacks_capture c =
     \<lparr>build_api_params_callback = Some (\<lambda>msgs ts. Inr \<lparr>params_tools = Some ts, params_rest = ''model''\<rparr>),
      create_stream_callback =
        Some (\<lambda>w p. (Inr (if w = 0 then [raw_call, raw_completed] else [raw_text, raw_completed], None),
                      Suc w)),
      detect_function_calls_callback =
        Some (\<lambda>r cur cap. if r = raw_call then Inr (None, cap @ [c], True) else Inr (cur, cap, False)),
      process_chunk_callback = Some (\<lambda>r. Inr (if r = raw_text then Some hello_chunk else None)),
      format_tool_result_callback = None\<rparr>"

section \<open>Properties of the coordination-tool filter\<close>

lemma lower_vote: "lower ''vote'' = ''vote''"
  by code_simp

lemma lower_new_answer: "lower ''new_answer'' = ''new_answer''"
  by code_simp

lemma example_tool_names:
  "get_name t_vote = ''vote''" "get_name t_new_answer = ''new_answer''"
  "get_name t_search = ''search''" "get_name t_lookup = ''lookup''"
  "get_name t_remote = []" "get_name t_web = []"
  by (simp_all add: get_name_def t_vote_def t_new_answer_def t_search_def t_lookup_def
        t_remote_def t_web_def)

lemma example_coordination_tools:
  "is_coordination_tool ''vote''" "is_coordination_tool ''new_answer''"
  "\<not> is_coordination_tool ''search''" "\<not> is_coordination_tool ''lookup''"
  "\<not> is_coordination_tool []"
  by code_simp+

lemma filter_coordination_subset:
  "set (filter_coordination_tools_for_context cur orig ex fin) \<subseteq> set cur"
  by (auto simp: filter_coordination_tools_for_context_def Let_def)

lemma filter_coordination_example:
  "filter_coordination_tools_for_context [t_vote, t_search, t_new_answer] [t_vote, t_new_answer]
     True False = [t_search, t_vote]"
  by (simp add: filter_coordination_tools_for_context_def should_preserve_coordination_tool_def
        example_tool_names example_coordination_tools lower_vote lower_new_answer)

text \<open>
  C10. The context filter introduces no tool: every tool of its output is one of its
  input, and the tools that are not coordination tools (name other than \<open>vote\<close> and
  \<open>new_answer\<close>, whatever the case of the letters) come out as they went in, in the same
  order; only coordination tools can be missing.
\<close>

theorem filter_coordination_frame:
  "set (filter_coordination_tools_for_context cur orig ex fin) \<subseteq> set cur
   \<and> filter (\<lambda>t. \<not> is_coordination_tool (get_name t))
         (filter_coordination_tools_for_context cur orig ex fin)
       = filter (\<lambda>t. \<not> is_coordination_tool (get_name t)) cur"
  by (auto simp: filter_coordination_tools_for_context_def Let_def
        should_preserve_coordination_tool_def filter_empty_conv)

theorem filter_coordination_frame_witness:
  "t_search \<in> set [t_vote, t_search, t_new_answer]
   \<and> filter (\<lambda>t. \<not> is_coordination_tool (get_name t)) [t_search, t_vote] = [t_search]"
proof -
  note fr = filter_coordination_frame[of "[t_vote, t_search, t_new_answer]" "[t_vote, t_new_answer]"
      True False]
  have "t_search \<in> set (filter_coordination_tools_for_context [t_vote, t_search, t_new_answer]
      [t_vote, t_new_answer] True False)"
    by (simp add: filter_coordination_example)
  with fr have "t_search \<in> set [t_vote, t_search, t_new_answer]" by blast
  moreover from fr have "filter (\<lambda>t. \<not> is_coordination_tool (get_name t)) [t_search, t_vote]
      = [t_search]"
    by (simp add: filter_coordination_example example_tool_names example_coordination_tools)
  ultimately show ?thesis by simp
qed

text \<open>
  C4. The coordination-tool policy: with existing answers the rebuilt list holds no
  \<open>new_answer\<close> tool, without them it holds no \<open>vote\<close> tool, and a coordination tool is
  kept only if its name is the name of a tool of the original list.
\<close>

theorem coordination_policy:
  "(ex \<longrightarrow> (\<forall>t \<in> set (filter_coordination_tools_for_context cur orig ex fin).
               lower (get_name t) \<noteq> ''new_answer''))
   \<and> (\<not> ex \<longrightarrow> (\<forall>t \<in> set (filter_coordination_tools_for_context cur orig ex fin).
               lower (get_name t) \<noteq> ''vote''))
   \<and> (\<forall>t \<in> set (filter_coordination_tools_for_context cur orig ex fin).
         is_coordination_tool (get_name t) \<longrightarrow> get_name t \<in> set (map get_name orig))"
  by (auto simp: filter_coordination_tools_for_context_def Let_def
        should_preserve_coordination_tool_def is_coordination_tool_def filter_empty_conv
        split: if_splits)

theorem coordination_policy_witness:
  "filter_coordination_tools_for_context [t_vote, t_search, t_new_answer] [t_vote, t_new_answer]
     True False = [t_search, t_vote]
   \<and> lower (get_name t_vote) \<noteq> ''new_answer''
   \<and> get_name t_vote \<in> set (map get_name [t_vote, t_new_answer])"
proof -
  note po = coordination_policy[of True "[t_vote, t_search, t_new_answer]"
      "[t_vote, t_new_answer]" False]
  have m: "t_vote \<in> set (filter_coordination_tools_for_context [t_vote, t_search, t_new_answer]
      [t_vote, t_new_answer] True False)"
    by (simp add: filter_coordination_example)
  have c: "is_coordination_tool (get_name t_vote)"
    by (simp add: example_tool_names example_coordination_tools)
  from po m have "lower (get_name t_vote) \<noteq> ''new_answer''" by blast
  moreover from po m c have "get_name t_vote \<in> set (map get_name [t_vote, t_new_answer])"
    by blast
  ultimately show ?thesis by (simp add: filter_coordination_example)
qed

section \<open>Properties of the fallback\<close>

lemma tools_of_strip:
  "t \<in> set (tools_of (strip_mcp_tools fs p)) \<Longrightarrow> \<not> layer_tool fs t"
  by (auto simp: tools_of_def strip_mcp_tools_def layer_tool_def Let_def split: option.splits)

lemma tools_of_policy:
  "set (tools_of (apply_coordination_policy is_multi fin orig ex p)) \<subseteq> set (tools_of p)"
proof (cases "is_multi \<and> (case orig of None \<Rightarrow> False | Some ts \<Rightarrow> ts \<noteq> [])")
  case True
  then obtain ts where o: "orig = Some ts" "ts \<noteq> []" "is_multi"
    by (cases orig) auto
  have "tools_of (apply_coordination_policy is_multi fin orig ex p)
        = filter_coordination_tools_for_context (tools_of p) ts ex fin"
    using o by (simp add: tools_of_def apply_coordination_policy_def)
  then show ?thesis using filter_coordination_subset by simp
next
  case False
  then have "apply_coordination_policy is_multi fin orig ex p = p"
    by (auto simp: apply_coordination_policy_def split: option.splits)
  then show ?thesis by simp
qed

lemma tools_of_provider:
  "set (tools_of (add_provider_tools prov p)) \<subseteq> set (tools_of p) \<union> set prov"
  by (auto simp: tools_of_def add_provider_tools_def Let_def split: option.splits)

lemma example_layer_tools:
  "layer_tool registry_lookup t_remote" "layer_tool registry_lookup t_lookup"
  "\<not> layer_tool registry_lookup t_search" "\<not> layer_tool registry_lookup t_vote"
  "\<not> layer_tool registry_lookup t_web"
  by (simp_all add: layer_tool_def registry_lookup_def t_remote_def t_lookup_def t_search_def
        t_vote_def t_web_def)

lemma strip_request:
  "strip_mcp_tools registry_lookup request =
     request\<lparr>params_tools := Some [t_vote, t_search, t_new_answer]\<rparr>"
  by (simp add: strip_mcp_tools_def request_def registry_lookup_def t_remote_def t_lookup_def
        t_search_def t_vote_def t_new_answer_def)

lemma fallback_request_single:
  "tools_of (fallback_params registry_lookup request [t_web] False False None False)
     = [t_vote, t_search, t_new_answer, t_web]"
  by (simp add: fallback_params_def strip_request apply_coordination_policy_def
        add_provider_tools_def tools_of_def t_web_def t_search_def t_vote_def t_new_answer_def)

lemma fallback_request_remote:
  "tools_of (fallback_params registry_lookup request [t_remote] False False None False)
     = [t_vote, t_search, t_new_answer, t_remote]"
  by (simp add: fallback_params_def strip_request apply_coordination_policy_def
        add_provider_tools_def tools_of_def t_remote_def t_search_def t_vote_def t_new_answer_def)

text \<open>
  C3, as the code has it. The tools that the fallback parameters keep from the request
  carry neither the type \<open>mcp\<close> nor a name of the functions registry; the provider tools
  are attached as they are, so a tool of this layer is in the parameters passed to the
  fallback only if it is one of the provider tools.
\<close>

theorem fallback_params_layer_tools:
  "(\<forall>t \<in> set (tools_of (apply_coordination_policy is_multi fin orig ex (strip_mcp_tools fs p))).
       \<not> layer_tool fs t)
   \<and> (\<forall>t \<in> set (tools_of (fallback_params fs p prov is_multi fin orig ex)).
         layer_tool fs t \<longrightarrow> t \<in> set prov)"
proof (intro conjI ballI impI)
  fix t
  assume "t \<in> set (tools_of (apply_coordination_policy is_multi fin orig ex (strip_mcp_tools fs p)))"
  then have "t \<in> set (tools_of (strip_mcp_tools fs p))"
    using tools_of_policy by blast
  then show "\<not> layer_tool fs t"
    by (rule tools_of_strip)
next
  fix t
  assume a: "t \<in> set (tools_of (fallback_params fs p prov is_multi fin orig ex))"
    and l: "layer_tool fs t"
  from a have "t \<in> set (tools_of (apply_coordination_policy is_multi fin orig ex
      (strip_mcp_tools fs p))) \<or> t \<in> set prov"
    unfolding fallback_params_def using tools_of_provider by blast
  moreover have "t \<notin> set (tools_of (apply_coordination_policy is_multi fin orig ex
      (strip_mcp_tools fs p)))"
    using l tools_of_policy tools_of_strip by blast
  ultimately show "t \<in> set prov" by blast
qed

theorem fallback_params_layer_tools_witness:
  "tools_of (fallback_params registry_lookup request [t_web] False False None False)
     = [t_vote, t_search, t_new_answer, t_web]
   \<and> \<not> layer_tool registry_lookup t_search
   \<and> t_remote \<notin> set (tools_of (fallback_params registry_lookup request [t_web] False False
         None False))"
proof -
  note lt = fallback_params_layer_tools[of False False None False registry_lookup request
      "[t_web]"]
  have "t_remote \<notin> set [t_web]"
    by (simp add: t_remote_def t_web_def)
  with lt example_layer_tools(1)
  have "t_remote \<notin> set (tools_of (fallback_params registry_lookup request [t_web] False False
         None False))"
    by blast
  then show ?thesis
    by (simp add: fallback_request_single example_layer_tools)
qed

text \<open>
  The claim C3 as it is written fails: a provider tool of type \<open>mcp\<close> is attached again
  after the request's own tools were stripped.
\<close>

theorem fallback_params_provider_counterexample:
  "t_remote \<in> set (tools_of (fallback_params registry_lookup request [t_remote] False False
       None False))
   \<and> tool_type t_remote = Some ''mcp''"
  by (simp add: fallback_request_remote) (simp add: t_remote_def)

text \<open>
  C6. The handler yields one \<open>mcp_error\<close> status chunk that carries the user message,
  then one content chunk whose text holds the user message and the text of the error,
  then the chunks of the fallback stream as they are. It never raises the error it was
  given: its stream ends by an exception exactly when the fallback stream does, with the
  fallback's exception, so it ends normally whenever the fallback stream does. It counts
  one more tool failure.
\<close>

theorem handle_mcp_error_and_fallback_stream:
  "fst (fst (handle_mcp_error_and_fallback gd h e p prov stream_func is_multi fin orig ex)) =
       \<lparr>chunk_type = ''mcp_status'', status = Some ''mcp_error'',
        content = Some (fst (snd (gd e))), source = Some ''mcp_error''\<rparr>
     # \<lparr>chunk_type = ''content'', status = None,
        content = Some ([CHR 0x0A] @ warning_sign @ ''  '' @ fst (snd (gd e)) @ '' ('' @ e
                         @ ''); continuing without MCP tools'' @ [CHR 0x0A]),
        source = None\<rparr>
     # fst (stream_func (fallback_params (backend_functions h) p prov is_multi fin orig ex))
   \<and> snd (fst (handle_mcp_error_and_fallback gd h e p prov stream_func is_multi fin orig ex))
       = snd (stream_func (fallback_params (backend_functions h) p prov is_multi fin orig ex))
   \<and> (snd (stream_func (fallback_params (backend_functions h) p prov is_multi fin orig ex)) = None
        \<longrightarrow> snd (fst (handle_mcp_error_and_fallback gd h e p prov stream_func is_multi fin orig ex))
              = None)
   \<and> mcp_tool_failures (snd (handle_mcp_error_and_fallback gd h e p prov stream_func is_multi fin
         orig ex)) = mcp_tool_failures h + 1"
  by (simp add: handle_mcp_error_and_fallback_def Let_def error_status_chunk_def
        error_notice_chunk_def split: prod.splits)

theorem handle_mcp_error_and_fallback_stream_witness:
  "fst (handle_mcp_error_and_fallback error_details h_ready ''boom'' request [t_web] plain_stream
          False False None False) =
     ([\<lparr>chunk_type = ''mcp_status'', status = Some ''mcp_error'',
        content = Some ''MCP connection failed'', source = Some ''mcp_error''\<rparr>,
       \<lparr>chunk_type = ''content'', status = None,
        content = Some ([CHR 0x0A] @ warning_sign @ ''  MCP connection failed (boom)''
                         @ ''; continuing without MCP tools'' @ [CHR 0x0A]),
        source = None\<rparr>,
       hello_chunk, done_chunk], None)
   \<and> mcp_tool_failures (snd (handle_mcp_error_and_fallback error_details h_ready ''boom'' request
         [t_web] plain_stream False False None False)) = 1"
proof -
  note th = handle_mcp_error_and_fallback_stream[of error_details h_ready "''boom''" request
      "[t_web]" plain_stream False False None False]
  have n: "snd (plain_stream (fallback_params (backend_functions h_ready) request [t_web]
      False False None False)) = None"
    by (simp add: plain_stream_def)
  from th n have r: "snd (fst (handle_mcp_error_and_fallback error_details h_ready ''boom'' request
      [t_web] plain_stream False False None False)) = None"
    by blast
  have f: "mcp_tool_failures h_ready = 0"
    by (simp add: h_ready_def h_fresh_def)
  from th have c: "fst (fst (handle_mcp_error_and_fallback error_details h_ready ''boom'' request
      [t_web] plain_stream False False None False)) =
     [\<lparr>chunk_type = ''mcp_status'', status = Some ''mcp_error'',
        content = Some ''MCP connection failed'', source = Some ''mcp_error''\<rparr>,
       \<lparr>chunk_type = ''content'', status = None,
        content = Some ([CHR 0x0A] @ warning_sign @ ''  MCP connection failed (boom)''
                         @ ''; continuing without MCP tools'' @ [CHR 0x0A]),
        source = None\<rparr>,
       hello_chunk, done_chunk]"
    by (simp add: error_details_def plain_stream_def)
  from th f have m: "mcp_tool_failures (snd (handle_mcp_error_and_fallback error_details h_ready
      ''boom'' request [t_web] plain_stream False False None False)) = 1"
    by simp
  from c r m show ?thesis
    by (simp add: prod_eq_iff)
qed

section \<open>Properties of the set-up\<close>

lemma fields_log_event [simp]:
  "trace (log_event e h) = trace h @ [e]"
  "mcp_servers (log_event e h) = mcp_servers h"
  "mcp_state (log_event e h) = mcp_state h"
  "mcp_permanently_blocked (log_event e h) = mcp_permanently_blocked h"
  "mcp_circuit_breaker_notified (log_event e h) = mcp_circuit_breaker_notified h"
  "circuit_breakers_enabled (log_event e h) = circuit_breakers_enabled h"
  "mcp_tools_circuit_breaker (log_event e h) = mcp_tools_circuit_breaker h"
  "servers_signature (log_event e h) = servers_signature h"
  "world (log_event e h) = world h"
  "backend_functions (log_event e h) = backend_functions h"
  by (simp_all add: log_event_def)

lemma all_blocked_warnings_snoc [simp]:
  "all_blocked_warnings (evs @ [e]) =
     all_blocked_warnings evs + (if e = Warning AllBlockedDuringSetup then 1 else 0)"
  by (simp add: all_blocked_warnings_def)

lemma connection_attempts_snoc [simp]:
  "connection_attempts (evs @ [e]) =
     connection_attempts evs @ (case e of SetupClient _ \<Rightarrow> [e] | _ \<Rightarrow> [])"
  by (cases e) (simp_all add: connection_attempts_def)

lemma reinitialize_on_change_fields:
  "mcp_servers (reinitialize_on_change env sg h) = mcp_servers h"
  "mcp_permanently_blocked (reinitialize_on_change env sg h) = mcp_permanently_blocked h"
  "mcp_circuit_breaker_notified (reinitialize_on_change env sg h) = mcp_circuit_breaker_notified h"
  "circuit_breakers_enabled (reinitialize_on_change env sg h) = circuit_breakers_enabled h"
  "mcp_tools_circuit_breaker (reinitialize_on_change env sg h) = mcp_tools_circuit_breaker h"
  "connection_attempts (trace (reinitialize_on_change env sg h)) = connection_attempts (trace h)"
  "all_blocked_warnings (trace (reinitialize_on_change env sg h)) = all_blocked_warnings (trace h)"
  "mcp_state h \<noteq> READY \<Longrightarrow> mcp_state (reinitialize_on_change env sg h) \<noteq> READY"
  "servers_signature (reinitialize_on_change env sg h) = Some sg"
  by (auto simp: reinitialize_on_change_def cleanup_mcp_def Let_def
        split: option.splits prod.splits)

lemma reinitialize_on_change_same:
  "servers_signature h = Some sg \<Longrightarrow> reinitialize_on_change env sg h = h"
  by (simp add: reinitialize_on_change_def)

lemma setup_attempts_all_blocked:
  assumes "apply_circuit_breaker_filtering env (world h) ms = []"
  shows "setup_attempts env cb ms m (a # rest) h =
     (let h1 = (if \<not> mcp_circuit_breaker_notified h
                then (log_event (Warning AllBlockedDuringSetup) h)\<lparr>mcp_circuit_breaker_notified := True\<rparr>
                else h)
      in if a \<ge> m then h1\<lparr>mcp_permanently_blocked := True\<rparr> else h1)"
  using assms by simp

text \<open>
  What one set-up does when the breaker rejects every candidate server of this
  invocation: the filter, asked in the world that the signature check leaves, returns
  the empty list for the servers \<open>ms\<close> that the set-up would connect to.
\<close>

lemma setup_all_blocked_eq:
  assumes blocked: "apply_circuit_breaker_filtering env
        (world (reinitialize_on_change env (signature_of ns) h)) ms = []"
    and pre: "mcp_servers h \<noteq> []" "mcp_state h \<noteq> READY" "\<not> mcp_permanently_blocked h"
    and norm: "normalize_mcp_servers env (mcp_servers h) = Inr ns"
    and sep: "separate_stdio_streamable_servers env ns = Inr ms" "ms \<noteq> []"
    and cb: "circuit_breakers_enabled h" "mcp_tools_circuit_breaker h = Some cb"
  shows "setup_mcp_tools env h =
     (let h1 = reinitialize_on_change env (signature_of ns) h
      in if max_failures cb < 1 then h1
         else (let h2 = (if \<not> mcp_circuit_breaker_notified h1
                         then (log_event (Warning AllBlockedDuringSetup) h1)
                                \<lparr>mcp_circuit_breaker_notified := True\<rparr>
                         else h1)
               in if max_failures cb = 1 then h2\<lparr>mcp_permanently_blocked := True\<rparr> else h2))"
proof -
  let ?h1 = "reinitialize_on_change env (signature_of ns) h"
  have body: "setup_body env h (mcp_state h) =
      Inr (setup_attempts env cb ms (max_failures cb) [1..max_failures cb] ?h1)"
    using pre norm sep cb
    by (simp add: setup_body_def reinitialize_on_change_fields Let_def)
  have su: "setup_mcp_tools env h =
      setup_attempts env cb ms (max_failures cb) [1..max_failures cb] ?h1"
    using pre by (simp add: setup_mcp_tools_def Let_def body)
  show ?thesis
  proof (cases "max_failures cb < 1")
    case True
    then show ?thesis by (simp add: su Let_def)
  next
    case False
    then have "[1..max_failures cb] = 1 # [2..max_failures cb]"
      by (simp add: upto_rec1)
    then show ?thesis using False
      by (simp add: su setup_attempts_all_blocked[OF blocked] Let_def del: setup_attempts.simps)
  qed
qed

lemma setup_noop_blocked: "mcp_permanently_blocked h \<Longrightarrow> setup_mcp_tools env h = h"
  by (simp add: setup_mcp_tools_def Let_def)

lemma setup_noop_ready: "mcp_state h = READY \<Longrightarrow> setup_mcp_tools env h = h"
  by (simp add: setup_mcp_tools_def)

lemma setup_all_blocked_fields:
  assumes blocked: "apply_circuit_breaker_filtering env
        (world (reinitialize_on_change env (signature_of ns) h)) ms = []"
    and pre: "mcp_servers h \<noteq> []" "mcp_state h \<noteq> READY" "\<not> mcp_permanently_blocked h"
    and norm: "normalize_mcp_servers env (mcp_servers h) = Inr ns"
    and sep: "separate_stdio_streamable_servers env ns = Inr ms" "ms \<noteq> []"
    and cb: "circuit_breakers_enabled h" "mcp_tools_circuit_breaker h = Some cb"
  shows "mcp_servers (setup_mcp_tools env h) = mcp_servers h"
    and "mcp_state (setup_mcp_tools env h) \<noteq> READY"
    and "circuit_breakers_enabled (setup_mcp_tools env h)"
    and "mcp_tools_circuit_breaker (setup_mcp_tools env h) = Some cb"
    and "mcp_permanently_blocked (setup_mcp_tools env h) \<longleftrightarrow> max_failures cb = 1"
    and "mcp_circuit_breaker_notified (setup_mcp_tools env h)
           \<longleftrightarrow> mcp_circuit_breaker_notified h \<or> 1 \<le> max_failures cb"
    and "all_blocked_warnings (trace (setup_mcp_tools env h)) =
           all_blocked_warnings (trace h)
             + (if \<not> mcp_circuit_breaker_notified h \<and> 1 \<le> max_failures cb then 1 else 0)"
    and "connection_attempts (trace (setup_mcp_tools env h)) = connection_attempts (trace h)"
    and "servers_signature (setup_mcp_tools env h) = Some (signature_of ns)"
    and "world (setup_mcp_tools env h) = world (reinitialize_on_change env (signature_of ns) h)"
  using pre cb reinitialize_on_change_fields(8)[OF pre(2), of env "signature_of ns"]
  unfolding setup_all_blocked_eq[OF assms]
  by (auto simp: Let_def reinitialize_on_change_fields)

text \<open>
  After an all-blocked set-up the signature is stored and the world is as the set-up
  left it, so the next set-up meets the same breaker: the conditions repeat.
\<close>

lemma setup_all_blocked_again:
  assumes blocked: "apply_circuit_breaker_filtering env
        (world (reinitialize_on_change env (signature_of ns) h)) ms = []"
    and pre: "mcp_servers h \<noteq> []" "mcp_state h \<noteq> READY" "\<not> mcp_permanently_blocked h"
    and norm: "normalize_mcp_servers env (mcp_servers h) = Inr ns"
    and sep: "separate_stdio_streamable_servers env ns = Inr ms" "ms \<noteq> []"
    and cb: "circuit_breakers_enabled h" "mcp_tools_circuit_breaker h = Some cb"
    and m: "max_failures cb \<noteq> 1"
  shows "mcp_servers ((setup_mcp_tools env ^^ Suc n) h) = mcp_servers h
       \<and> mcp_state ((setup_mcp_tools env ^^ Suc n) h) \<noteq> READY
       \<and> \<not> mcp_permanently_blocked ((setup_mcp_tools env ^^ Suc n) h)
       \<and> circuit_breakers_enabled ((setup_mcp_tools env ^^ Suc n) h)
       \<and> mcp_tools_circuit_breaker ((setup_mcp_tools env ^^ Suc n) h) = Some cb
       \<and> servers_signature ((setup_mcp_tools env ^^ Suc n) h) = Some (signature_of ns)
       \<and> world ((setup_mcp_tools env ^^ Suc n) h)
           = world (reinitialize_on_change env (signature_of ns) h)"
proof (induction n)
  case 0
  note f = setup_all_blocked_fields[OF blocked pre norm sep cb]
  show ?case using f(1-5,9,10) pre m by simp
next
  case (Suc n)
  let ?g = "(setup_mcp_tools env ^^ Suc n) h"
  from Suc have g: "mcp_servers ?g \<noteq> []" "mcp_state ?g \<noteq> READY" "\<not> mcp_permanently_blocked ?g"
     "normalize_mcp_servers env (mcp_servers ?g) = Inr ns"
     "circuit_breakers_enabled ?g" "mcp_tools_circuit_breaker ?g = Some cb"
    using pre norm by simp_all
  from Suc have sg: "servers_signature ?g = Some (signature_of ns)"
    and w: "world ?g = world (reinitialize_on_change env (signature_of ns) h)"
    by simp_all
  have same: "reinitialize_on_change env (signature_of ns) ?g = ?g"
    using sg by (rule reinitialize_on_change_same)
  have b: "apply_circuit_breaker_filtering env
        (world (reinitialize_on_change env (signature_of ns) ?g)) ms = []"
    using blocked w by (simp only: same)
  note f = setup_all_blocked_fields[OF b g(1,2,3,4) sep g(5,6)]
  have step: "(setup_mcp_tools env ^^ Suc (Suc n)) h = setup_mcp_tools env ?g"
    by simp
  show ?case
    unfolding step using f(1-5,9,10) Suc m w same by simp
qed

lemma env_trip_servers:
  "normalize_mcp_servers env_trip (mcp_servers (h_fresh m)) = Inr [srv_a, srv_b]"
  "separate_stdio_streamable_servers env_trip [srv_a, srv_b] = Inr [srv_a, srv_b]"
  by (simp_all add: env_trip_def env_ok_def h_fresh_def)

lemma env_trip_filter:
  "apply_circuit_breaker_filtering env_trip
     (world (reinitialize_on_change env_trip (signature_of [srv_a, srv_b]) (h_fresh m)))
     [srv_a, srv_b] = []"
  by (simp add: env_trip_def reinitialize_on_change_def h_fresh_def)

lemma h_fresh_fields:
  "mcp_servers (h_fresh m) \<noteq> []" "mcp_state (h_fresh m) \<noteq> READY"
  "\<not> mcp_permanently_blocked (h_fresh m)" "circuit_breakers_enabled (h_fresh m)"
  "mcp_tools_circuit_breaker (h_fresh m) = Some \<lparr>max_failures = m\<rparr>"
  "all_blocked_warnings (trace (h_fresh m)) = 0" "connection_attempts (trace (h_fresh m)) = []"
  "\<not> mcp_circuit_breaker_notified (h_fresh m)"
  by (simp_all add: h_fresh_def all_blocked_warnings_def connection_attempts_def)

text \<open>
  C1, as the code has it. When the breaker's filter rejects every candidate server of a
  set-up, the set-up stops at its first attempt without a connection attempt; it sets
  the one-shot "all blocked" flag, with one warning if the flag was not set, when
  \<open>max_failures\<close> is at least 1; and it becomes permanently blocked exactly when
  \<open>max_failures = 1\<close>, after which every further set-up changes nothing. With any other
  \<open>max_failures\<close> no number of set-ups in a row makes the session permanently blocked.
\<close>

theorem setup_all_blocked:
  assumes blocked: "apply_circuit_breaker_filtering env
        (world (reinitialize_on_change env (signature_of ns) h)) ms = []"
    and pre: "mcp_servers h \<noteq> []" "mcp_state h \<noteq> READY" "\<not> mcp_permanently_blocked h"
    and norm: "normalize_mcp_servers env (mcp_servers h) = Inr ns"
    and sep: "separate_stdio_streamable_servers env ns = Inr ms" "ms \<noteq> []"
    and cb: "circuit_breakers_enabled h" "mcp_tools_circuit_breaker h = Some cb"
  shows "(mcp_permanently_blocked (setup_mcp_tools env h) \<longleftrightarrow> max_failures cb = 1)
       \<and> (mcp_circuit_breaker_notified (setup_mcp_tools env h)
            \<longleftrightarrow> mcp_circuit_breaker_notified h \<or> 1 \<le> max_failures cb)
       \<and> all_blocked_warnings (trace (setup_mcp_tools env h)) =
            all_blocked_warnings (trace h)
              + (if \<not> mcp_circuit_breaker_notified h \<and> 1 \<le> max_failures cb then 1 else 0)
       \<and> connection_attempts (trace (setup_mcp_tools env h)) = connection_attempts (trace h)
       \<and> (max_failures cb = 1 \<longrightarrow>
            (\<forall>n. (setup_mcp_tools env ^^ Suc n) h = setup_mcp_tools env h))
       \<and> (max_failures cb \<noteq> 1 \<longrightarrow>
            (\<forall>n. \<not> mcp_permanently_blocked ((setup_mcp_tools env ^^ n) h)))"
proof -
  note f = setup_all_blocked_fields[OF assms]
  have once: "(setup_mcp_tools env ^^ Suc n) h = setup_mcp_tools env h"
    if "max_failures cb = 1" for n
  proof (induction n)
    case 0
    then show ?case by simp
  next
    case (Suc n)
    have "mcp_permanently_blocked (setup_mcp_tools env h)" using f(5) that by simp
    then have "setup_mcp_tools env (setup_mcp_tools env h) = setup_mcp_tools env h"
      by (rule setup_noop_blocked)
    with Suc show ?case by simp
  qed
  have never: "\<not> mcp_permanently_blocked ((setup_mcp_tools env ^^ n) h)"
    if "max_failures cb \<noteq> 1" for n
  proof (cases n)
    case 0
    then show ?thesis using pre by simp
  next
    case (Suc k)
    then show ?thesis
      using setup_all_blocked_again[OF assms that, of k] by simp
  qed
  show ?thesis using f(5-8) once never by blast
qed

theorem setup_all_blocked_witness:
  "mcp_permanently_blocked (setup_mcp_tools env_trip (h_fresh 1))
   \<and> mcp_circuit_breaker_notified (setup_mcp_tools env_trip (h_fresh 1))
   \<and> all_blocked_warnings (trace (setup_mcp_tools env_trip (h_fresh 1))) = 1
   \<and> connection_attempts (trace (setup_mcp_tools env_trip (h_fresh 1))) = []
   \<and> setup_mcp_tools env_trip (setup_mcp_tools env_trip (h_fresh 1))
       = setup_mcp_tools env_trip (h_fresh 1)
   \<and> \<not> mcp_permanently_blocked
         (setup_mcp_tools env_trip (setup_mcp_tools env_trip
            (setup_mcp_tools env_trip (h_fresh 3))))"
proof -
  note p = h_fresh_fields
  note w1 = setup_all_blocked[OF env_trip_filter p(1,2,3) env_trip_servers _ p(4,5), of 1]
  note w3 = setup_all_blocked[OF env_trip_filter p(1,2,3) env_trip_servers _ p(4,5), of 3]
  from w1 have "\<forall>n. (setup_mcp_tools env_trip ^^ Suc n) (h_fresh 1)
      = setup_mcp_tools env_trip (h_fresh 1)"
    by simp
  from spec[OF this, of "Suc 0"]
  have twice: "setup_mcp_tools env_trip (setup_mcp_tools env_trip (h_fresh 1))
      = setup_mcp_tools env_trip (h_fresh 1)"
    by simp
  from w3 have "\<forall>n. \<not> mcp_permanently_blocked ((setup_mcp_tools env_trip ^^ n) (h_fresh 3))"
    by simp
  from spec[OF this, of "Suc (Suc (Suc 0))"]
  have never: "\<not> mcp_permanently_blocked
         (setup_mcp_tools env_trip (setup_mcp_tools env_trip
            (setup_mcp_tools env_trip (h_fresh 3))))"
    by simp
  show ?thesis using w1 p(6,7,8) twice never by simp
qed

text \<open>
  The claim C1 as it is written fails: with \<open>max_failures = 3\<close> and a breaker that
  rejects both servers, three set-ups (three attempts) leave the session not permanently
  blocked.
\<close>

theorem setup_all_blocked_counterexample:
  "max_failures (the (mcp_tools_circuit_breaker (h_fresh 3))) = 3
   \<and> apply_circuit_breaker_filtering env_blocked 0 [srv_a, srv_b] = []
   \<and> \<not> mcp_permanently_blocked
         (setup_mcp_tools env_blocked (setup_mcp_tools env_blocked
            (setup_mcp_tools env_blocked (h_fresh 3))))"
  by code_simp

text \<open>
  C7. A set-up in the state \<open>READY\<close> with an unchanged signature, or in a permanently
  blocked session, changes nothing: the handler it returns is the one it was given,
  trace included, so no connection was attempted.
\<close>

theorem setup_idempotent:
  assumes "(mcp_state h = READY \<and> normalize_mcp_servers env (mcp_servers h) = Inr ns
             \<and> servers_signature h = Some (signature_of ns))
           \<or> mcp_permanently_blocked h"
  shows "setup_mcp_tools env h = h"
  using assms by (auto simp: setup_mcp_tools_def Let_def)

lemma signature_ab: "signature_of [srv_a, srv_b] = [''alpha'', ''beta'']"
  by code_simp

lemma signature_c: "signature_of [srv_c] = [''gamma'']"
  by code_simp

theorem setup_idempotent_witness:
  "setup_mcp_tools env_ok h_ready = h_ready
   \<and> setup_mcp_tools env_ok ((h_fresh 1)\<lparr>mcp_permanently_blocked := True\<rparr>)
       = (h_fresh 1)\<lparr>mcp_permanently_blocked := True\<rparr>"
proof -
  have r: "mcp_state h_ready = READY
      \<and> normalize_mcp_servers env_ok (mcp_servers h_ready) = Inr [srv_a, srv_b]
      \<and> servers_signature h_ready = Some (signature_of [srv_a, srv_b])"
    by (simp add: h_ready_def h_fresh_def env_ok_def signature_ab)
  have b: "mcp_permanently_blocked ((h_fresh 1)\<lparr>mcp_permanently_blocked := True\<rparr>)"
    by simp
  show ?thesis
    using setup_idempotent[of h_ready env_ok "[srv_a, srv_b]", OF disjI1, OF r]
      setup_idempotent[of "(h_fresh 1)\<lparr>mcp_permanently_blocked := True\<rparr>" env_ok "[]", OF disjI2, OF b]
    by simp
qed

text \<open>
  C2 does not hold of the code: \<open>setup_mcp_tools\<close> returns at
  \<open>if current_state == MCPState.READY: return\<close> before it computes the new signature. The
  handler is \<open>READY\<close> with the signature of alpha and beta, its servers are now gamma, every
  server answers; the set-up leaves the old signature, the old client and the state
  \<open>READY\<close>, and makes no call.
\<close>

theorem setup_ready_ignores_configuration_change:
  "mcp_state h_drift = READY
   \<and> servers_signature h_drift = Some [''alpha'', ''beta'']
   \<and> normalize_mcp_servers env_ok (mcp_servers h_drift) = Inr [srv_c]
   \<and> signature_of [srv_c] = [''gamma'']
   \<and> setup_mcp_tools env_ok h_drift = h_drift
   \<and> mcp_client (setup_mcp_tools env_ok h_drift) = Some client_ab
   \<and> trace (setup_mcp_tools env_ok h_drift) = []"
proof -
  have s: "mcp_state h_drift = READY"
    by (simp add: h_drift_def h_ready_def)
  have "setup_mcp_tools env_ok h_drift = h_drift"
    using s by (rule setup_noop_ready)
  then show ?thesis
    by (simp add: signature_c) (simp add: h_drift_def h_ready_def h_fresh_def env_ok_def)
qed

section \<open>Properties of the execution of a captured call\<close>


lemma execute_other_exception:
  "json_loads env a = Inl (OtherException x) \<Longrightarrow>
   execute_mcp_function_with_retry env h n a = (Inl x, h)"
  by (simp add: execute_mcp_function_with_retry_def)








lemma deep_arguments:
  "json_loads env_ok (call_arguments call_lookup_deep)
     = Inl (OtherException ''maximum recursion depth exceeded'')"
proof -
  have l: "length deep_payload = 100000"
    by (simp add: deep_payload_def)
  have "deep_payload \<noteq> ''{}''"
  proof
    assume "deep_payload = ''{}''"
    then have "length deep_payload = length ''{}''"
      by (rule arg_cong)
    with l show False
      by simp
  qed
  with l show ?thesis
    by (simp add: env_ok_def call_lookup_deep_def)
qed






text \<open>
  The claim C9 as it is written fails: on arguments nested so deeply that \<open>json.loads\<close>
  raises \<open>RecursionError\<close>, which is not a \<open>ValueError\<close>, \<open>execute_mcp_function_with_retry\<close>
  returns no error result; the exception leaves it.
\<close>

theorem invalid_json_arguments_counterexample:
  "json_loads env_ok (call_arguments call_lookup_deep)
     = Inl (OtherException ''maximum recursion depth exceeded'')
   \<and> execute_mcp_function_with_retry env_ok h_ready (call_name call_lookup_deep)
        (call_arguments call_lookup_deep)
     = (Inl ''maximum recursion depth exceeded'', h_ready)"
  using deep_arguments execute_other_exception[OF deep_arguments] by simp

section \<open>Properties of the streaming engine\<close>



lemma executed_calls_snoc [simp]:
  "executed_calls (evs @ [e]) =
     executed_calls evs @ (case e of ExecuteFunction _ _ \<Rightarrow> [e] | _ \<Rightarrow> [])"
  by (cases e) (simp_all add: executed_calls_def)





lemma engine_stream_step:
  assumes "execute_captured env cbs fb h msgs captured = Continue cs h1 msgs1"
    and "build_api_params_callback cbs = Some build" "create_stream_callback cbs = Some create"
    and "detect_function_calls_callback cbs = Some detect"
    and "process_chunk_callback cbs = Some process"
    and "build msgs1 tls = Inr params"
    and "create (world h1) params = (Inr (raw, stream_error), w)"
    and "consume_stream detect process raw None [] = (out, cap, completed, raised)"
  shows "execute_mcp_functions_and_recurse (Suc fuel) env cbs fb h msgs tls captured =
     (case raised of
        Some e \<Rightarrow> Some ((cs @ out, Some e), h1\<lparr>world := w\<rparr>)
      | None \<Rightarrow>
          if completed then
            if cap \<noteq> [] then
              (case execute_mcp_functions_and_recurse fuel env cbs None (h1\<lparr>world := w\<rparr>)
                      msgs1 tls cap of
                 None \<Rightarrow> None
               | Some ((next_chunks, r), h3) \<Rightarrow> Some ((cs @ out @ next_chunks, r), h3))
            else Some ((cs @ out @ [session_complete_chunk, done_chunk], None), h1\<lparr>world := w\<rparr>)
          else
            (case stream_error of
               Some e \<Rightarrow> Some ((cs @ out, Some e), h1\<lparr>world := w\<rparr>)
             | None \<Rightarrow> Some ((cs @ out @ [done_chunk], None), h1\<lparr>world := w\<rparr>)))"
  using assms by (simp add: Let_def)


lemma done_chunks_simps [simp]:
  "done_chunks [] = []"
  "done_chunks (cs @ ds) = done_chunks cs @ done_chunks ds"
  "done_chunks (c # cs) = (if chunk_type c = ''done'' then [c] else []) @ done_chunks cs"
  by (simp_all add: done_chunks_def)

lemma chunk_types [simp]:
  "chunk_type (status_chunk st msg src) = ''mcp_status''"
  "chunk_type (tool_called_chunk n) = ''mcp_status''"
  "chunk_type blocked_chunk = ''mcp_status''"
  "chunk_type session_complete_chunk = ''mcp_status''"
  "chunk_type done_chunk = ''done''"
  by (simp_all add: status_chunk_def tool_called_chunk_def blocked_chunk_def
        session_complete_chunk_def done_chunk_def)






text \<open>Fuel that is not needed changes nothing.\<close>

lemma engine_more_fuel:
  "execute_mcp_functions_and_recurse fuel env cbs fb h msgs tls captured = Some r \<Longrightarrow>
   execute_mcp_functions_and_recurse (Suc fuel) env cbs fb h msgs tls captured = Some r"
proof (induction fuel arbitrary: fb h msgs captured r)
  case 0
  then show ?case by simp
next
  case (Suc fuel)
  show ?case
  proof (cases "execute_captured env cbs fb h msgs captured")
    case (Return s h1)
    with Suc.prems show ?thesis by simp
  next
    case (Continue cs h1 msgs1)
    show ?thesis
    proof (cases "\<exists>build create detect process.
        build_api_params_callback cbs = Some build \<and> create_stream_callback cbs = Some create
        \<and> detect_function_calls_callback cbs = Some detect \<and> process_chunk_callback cbs = Some process")
      case False
      then show ?thesis
        using Suc.prems Continue
        by (auto split: option.splits)
    next
      case True
      then obtain build create detect process where cb:
        "build_api_params_callback cbs = Some build" "create_stream_callback cbs = Some create"
        "detect_function_calls_callback cbs = Some detect" "process_chunk_callback cbs = Some process"
        by blast
      show ?thesis
      proof (cases "build msgs1 tls")
        case (Inl e)
        with Suc.prems Continue cb show ?thesis by simp
      next
        case (Inr params)
        obtain opened w where c: "create (world h1) params = (opened, w)"
          by (cases "create (world h1) params")
        show ?thesis
        proof (cases opened)
          case (Inl e)
          with Suc.prems Continue cb Inr c show ?thesis by simp
        next
          case o: (Inr st)
          obtain raw stream_error where st: "st = (raw, stream_error)"
            by (cases st)
          obtain out cap completed raised where
            cs: "consume_stream detect process raw None [] = (out, cap, completed, raised)"
            by (cases "consume_stream detect process raw None []") auto
          note step = engine_stream_step[OF Continue cb Inr c[unfolded o st] cs]
          show ?thesis
          proof (cases "raised = None \<and> completed \<and> cap \<noteq> []")
            case True
            with Suc.prems step[where fuel = fuel] obtain r' where
              rec: "execute_mcp_functions_and_recurse fuel env cbs None (h1\<lparr>world := w\<rparr>)
                      msgs1 tls cap = Some r'"
              by (auto split: option.splits)
            from Suc.IH[OF rec]
            have "execute_mcp_functions_and_recurse (Suc fuel) env cbs None (h1\<lparr>world := w\<rparr>)
                      msgs1 tls cap = Some r'" .
            with rec Suc.prems True show ?thesis
              unfolding step[where fuel = fuel] step[where fuel = "Suc fuel"]
              by simp
          next
            case False
            with Suc.prems show ?thesis
              unfolding step[where fuel = fuel] step[where fuel = "Suc fuel"]
              by (auto split: option.splits)
          qed
        qed
      qed
    qed
  qed
qed







end
